theory Spec2Isabelle
  imports Main
begin

section \<open>Data model of mona.js\<close>

text \<open>
  JavaScript values that the parsers of this development produce or carry: \<open>undefined\<close>,
  booleans, strings, numbers and arrays. Functions are not part of this type; where the
  source dispatches on \<open>typeof arg === "function"\<close> the argument is an \<open>arg\<close> (below).
\<close>

datatype jsval =
    Undefined
  | Boolean bool
  | String string
  | Number int
  | Array "jsval list"

text \<open>JavaScript truthiness, as used by \<open>&&\<close>, \<open>||\<close> and \<open>!\<close>.\<close>

fun truthy :: "jsval \<Rightarrow> bool" where
  "truthy Undefined = False"
| "truthy (Boolean b) = b"
| "truthy (String s) = (s \<noteq> [])"
| "truthy (Number n) = (n \<noteq> 0)"
| "truthy (Array xs) = True"

text \<open>
  \<open>function SourcePosition(name, line, column)\<close>: the optional source file name, and the
  line and column, both counted from 1.
\<close>

record SourcePosition =
  name :: "string option"
  line :: int
  column :: int

text \<open>
  \<open>function ParseError(pos, messages, type)\<close>. The constructor stores whatever it is given:
  \<open>mergeErrors\<close> calls it with \<open>err1.pos\<close> (a property no ParseError has, hence
  \<open>undefined\<close>) and without a type, so position and type are optional.
\<close>

record ParseError =
  position :: "SourcePosition option"
  messages :: "string list"
  type :: "string option"

text \<open>
  \<open>function ParserState(value, restOfInput, userState, position, hasConsumed, error)\<close>.
  The constructor stores five fields (\<open>hasConsumed\<close> is dropped). The field \<open>position\<close> of
  the source is \<open>pos\<close> here, since \<open>position\<close> names the field of a ParseError.
\<close>

record ParserState =
  val :: jsval
  restOfInput :: string
  pos :: SourcePosition
  userState :: jsval
  error :: "ParseError option"

text \<open>
  What a JavaScript call can throw here: a \<open>TypeError\<close> (a property read of \<open>undefined\<close>,
  a call of \<open>undefined\<close>), or the ParseError that \<open>parse\<close> throws.
\<close>

datatype exn = TypeError | Thrown ParseError

text \<open>A parser maps a parser state to a parser state; like any call, it may throw.\<close>

type_synonym parser = "ParserState \<Rightarrow> exn + ParserState"

text \<open>
  The third argument of \<open>attr\<close>: either a plain value, or a function, which \<open>attr\<close>
  applies to the old value of the field.
\<close>

datatype 'a arg = Plain 'a | Function "'a \<Rightarrow> exn + 'a"

section \<open>Internals\<close>

text \<open>
  \<open>copy(obj)\<close> builds a new object with the prototype and the own properties of \<open>obj\<close>:
  on immutable records, the same record.
\<close>

definition copy :: "'a \<Rightarrow> 'a" where
  "copy obj = obj"

text \<open>
  \<open>attr(obj, name, arg)\<close>, in the three-argument form (the only one the library calls):
  a copy of \<open>obj\<close> whose field \<open>name\<close> is \<open>arg(obj[name])\<close> when \<open>arg\<close> is a function and
  \<open>arg\<close> otherwise. The field \<open>name\<close> is given by its selector and its update function.
\<close>

definition attr ::
  "('s \<Rightarrow> 'a) \<Rightarrow> (('a \<Rightarrow> 'a) \<Rightarrow> 's \<Rightarrow> 's) \<Rightarrow> 's \<Rightarrow> 'a arg \<Rightarrow> exn + 's" where
  "attr get upd obj a =
     (let newObj = copy obj in
      case a of
        Function f \<Rightarrow>
          (case f (get obj) of
             Inl x \<Rightarrow> Inl x
           | Inr v \<Rightarrow> Inr (upd (\<lambda>_. v) newObj))
      | Plain v \<Rightarrow> Inr (upd (\<lambda>_. v) newObj))"

text \<open>
  \<open>mergeErrors(err1, err2)\<close>. Reading \<open>err2.messages\<close> when \<open>err2\<close> is \<open>undefined\<close> throws
  a TypeError; this happens when \<open>err1\<close> is present with no messages. The merged error is
  \<open>new ParseError(err1.pos, err1.messages.concat(err2.messages))\<close>: \<open>err1.pos\<close> is
  \<open>undefined\<close> and no type is passed.
\<close>

fun mergeErrors :: "ParseError option \<Rightarrow> ParseError option \<Rightarrow> exn + ParseError option" where
  "mergeErrors None err2 = Inr err2"
| "mergeErrors (Some err1) None =
     (if messages err1 = [] then Inl TypeError else Inr (Some err1))"
| "mergeErrors (Some err1) (Some err2) =
     (if messages err1 = [] \<and> messages err2 \<noteq> [] then Inr (Some err2)
      else if messages err2 = [] \<and> messages err1 \<noteq> [] then Inr (Some err1)
      else Inr (Some \<lparr>position = None, messages = messages err1 @ messages err2,
                      type = None\<rparr>))"

section \<open>Core parsers\<close>

text \<open>\<open>value(val)\<close>: \<open>attr(parserState, "value", val)\<close>.\<close>

definition value_parser :: "jsval arg \<Rightarrow> parser" where
  "value_parser v parserState = attr val val_update parserState v"

text \<open>\<open>x || d\<close> for an optional string \<open>x\<close>: the empty string and \<open>undefined\<close> are falsy.\<close>

fun or_default :: "string option \<Rightarrow> string \<Rightarrow> string" where
  "or_default None d = d"
| "or_default (Some x) d = (if x = [] then d else x)"

text \<open>\<open>fail(msg, type)\<close>.\<close>

definition fail :: "string option \<Rightarrow> string option \<Rightarrow> parser" where
  "fail msg ty parserState =
     (let msg' = or_default msg ''parser error'';
          ty' = or_default ty ''failure''
      in attr error error_update parserState
           (Function (\<lambda>oldErr.
              mergeErrors oldErr
                (Some \<lparr>position = Some (pos parserState), messages = [msg'],
                       type = Some ty'\<rparr>))))"

text \<open>\<open>bind(parser, fun)\<close>: \<open>fun\<close> is called with the value of whatever state \<open>parser\<close> returns.\<close>

definition bind :: "parser \<Rightarrow> (jsval \<Rightarrow> parser) \<Rightarrow> parser" where
  "bind parser fn parserState =
     (case parser parserState of
        Inl x \<Rightarrow> Inl x
      | Inr newParserState \<Rightarrow> fn (val newParserState) newParserState)"

text \<open>\<open>token()\<close>.\<close>

definition token :: parser where
  "token parserState =
     (case restOfInput parserState of
        c # rest \<Rightarrow>
          (let newParserState = copy parserState;
               newPosition = copy (pos parserState);
               newPosition =
                 (if c = CHR 0x0A
                  then newPosition\<lparr>column := 1, line := line newPosition + 1\<rparr>
                  else newPosition\<lparr>column := column newPosition + 1\<rparr>)
           in Inr (newParserState\<lparr>val := String [c], restOfInput := rest,
                                  pos := newPosition\<rparr>))
      | [] \<Rightarrow> fail (Some ''unexpected eof'') (Some ''eof'') parserState)"

text \<open>
  \<open>eof()\<close>. On remaining input the source returns \<open>fail("expected an eof", "expectation")\<close>
  itself, the parser, where \<open>token\<close> returns \<open>fail(...)(parserState)\<close>: what \<open>eof()\<close>
  returns is a parser state or a parser.
\<close>

datatype returned = ReturnedState ParserState | ReturnedParser parser

definition eof :: "ParserState \<Rightarrow> exn + returned" where
  "eof parserState =
     (if restOfInput parserState = []
      then map_sum id ReturnedState (attr val val_update parserState (Plain (Boolean True)))
      else Inr (ReturnedParser (fail (Some ''expected an eof'') (Some ''expectation''))))"

section \<open>Combinators\<close>

text \<open>
  \<open>and(firstParser, ...moreParsers)\<close>, with the arguments as a list. With no argument
  \<open>firstParser\<close> is \<open>undefined\<close>, and calling it throws.
\<close>

fun and_parser :: "parser list \<Rightarrow> parser" where
  "and_parser [] = (\<lambda>parserState. Inl TypeError)"
| "and_parser (firstParser # moreParsers) =
     bind firstParser (\<lambda>result.
       if moreParsers \<noteq> [] then and_parser moreParsers else value_parser (Plain result))"

text \<open>
  \<open>or(...)\<close> is \<open>orHelper\<close> applied to the same arguments. \<open>orHelper\<close> runs \<open>parsers[0]\<close>
  on the state; if the result has an error and there is a \<open>parsers[1]\<close>, it runs
  \<open>orHelper\<close> of the remaining parsers on the state it was given, else returns the result.
\<close>

fun orHelper :: "parser list \<Rightarrow> parser" where
  "orHelper [] parserState = Inl TypeError"
| "orHelper (p # others) parserState =
     (case p parserState of
        Inl x \<Rightarrow> Inl x
      | Inr res \<Rightarrow>
          if error res \<noteq> None \<and> others \<noteq> [] then orHelper others parserState
          else Inr res)"

definition or_parser :: "parser list \<Rightarrow> parser" where
  "or_parser parsers = orHelper parsers"

section \<open>API\<close>

text \<open>
  The options object of \<open>parse\<close>; a field that the caller leaves out reads as
  \<open>undefined\<close>.
\<close>

record Opts =
  throwOnError :: jsval
  fileName :: "string option"
  opts_userState :: jsval

text \<open>\<open>new SourcePosition(name)\<close>: \<open>line || 1\<close> and \<open>column || 1\<close> are both 1.\<close>

definition new_SourcePosition :: "string option \<Rightarrow> SourcePosition" where
  "new_SourcePosition nm = \<lparr>name = nm, line = 1, column = 1\<rparr>"

text \<open>What \<open>parse\<close> returns: the value of the final state, or its error.\<close>

datatype parse_result = ReturnedValue jsval | ReturnedError ParseError

text \<open>
  \<open>parse(parser, string, opts)\<close>. \<open>opts || {throwOnError: true}\<close> replaces only a missing
  options object.
\<close>

definition parse :: "parser \<Rightarrow> string \<Rightarrow> Opts option \<Rightarrow> exn + parse_result" where
  "parse parser str opts =
     (let opts' = (case opts of
                     None \<Rightarrow> \<lparr>throwOnError = Boolean True, fileName = None,
                               opts_userState = Undefined\<rparr>
                   | Some given \<Rightarrow> given)
      in case parser \<lparr>val = Undefined, restOfInput = str,
                       pos = new_SourcePosition (fileName opts'),
                       userState = opts_userState opts', error = None\<rparr> of
           Inl x \<Rightarrow> Inl x
         | Inr parseState \<Rightarrow>
             (case error parseState of
                Some e \<Rightarrow>
                  if truthy (throwOnError opts') then Inl (Thrown e)
                  else Inr (ReturnedError e)
              | None \<Rightarrow> Inr (ReturnedValue (val parseState))))"

section \<open>Example states\<close>

text \<open>
  The state that \<open>parse(parser, str)\<close> hands to the parser when no options are given, and
  the error that \<open>fail("nope")\<close> creates on it.
\<close>

definition start :: "string \<Rightarrow> ParserState" where
  "start str = \<lparr>val = Undefined, restOfInput = str, pos = new_SourcePosition None,
                 userState = Undefined, error = None\<rparr>"

definition nope :: ParseError where
  "nope = \<lparr>position = Some (new_SourcePosition None), messages = [''nope''],
            type = Some ''failure''\<rparr>"

text \<open>The options \<open>{throwOnError: false}\<close>.\<close>

definition returnError :: "Opts option" where
  "returnError =
     Some \<lparr>throwOnError = Boolean False, fileName = None, opts_userState = Undefined\<rparr>"

lemmas ex_defs = start_def nope_def new_SourcePosition_def

section \<open>Unfolding the primitives\<close>

lemma attr_Plain: "attr get upd obj (Plain v) = Inr (upd (\<lambda>_. v) obj)"
  by (simp add: attr_def copy_def)

lemma attr_Function:
  "attr get upd obj (Function f) =
     (case f (get obj) of Inl x \<Rightarrow> Inl x | Inr v \<Rightarrow> Inr (upd (\<lambda>_. v) obj))"
  by (simp add: attr_def copy_def)

lemma value_parser_Plain: "value_parser (Plain v) s = Inr (s\<lparr>val := v\<rparr>)"
  by (simp add: value_parser_def attr_Plain)

text \<open>
  \<open>fail\<close> never throws: the error it passes to \<open>mergeErrors\<close> is present and has one
  message, so the state it returns carries the merged error.
\<close>

lemma fail_unfold:
  "fail msg ty s =
     (case mergeErrors (error s)
             (Some \<lparr>position = Some (pos s), messages = [or_default msg ''parser error''],
                    type = Some (or_default ty ''failure'')\<rparr>) of
        Inl x \<Rightarrow> Inl x
      | Inr e \<Rightarrow> Inr (s\<lparr>error := e\<rparr>))"
  by (simp add: fail_def attr_Function)

lemma fail_no_error:
  "error s = None \<Longrightarrow>
   fail msg ty s =
     Inr (s\<lparr>error := Some \<lparr>position = Some (pos s),
                             messages = [or_default msg ''parser error''],
                             type = Some (or_default ty ''failure'')\<rparr>\<rparr>)"
  by (simp add: fail_unfold)

lemma token_Cons:
  "restOfInput s = c # rest \<Longrightarrow>
   token s =
     Inr (s\<lparr>val := String [c], restOfInput := rest,
            pos := (if c = CHR 0x0A then (pos s)\<lparr>column := 1, line := line (pos s) + 1\<rparr>
                    else (pos s)\<lparr>column := column (pos s) + 1\<rparr>)\<rparr>)"
  by (simp add: token_def copy_def Let_def)

lemma token_Nil:
  "restOfInput s = [] \<Longrightarrow> token s = fail (Some ''unexpected eof'') (Some ''eof'') s"
  by (simp add: token_def)

text \<open>When every alternative fails, \<open>orHelper\<close> walks to the last one.\<close>

lemma orHelper_all_fail:
  "ps \<noteq> [] \<Longrightarrow> \<forall>p \<in> set ps. \<exists>r. p s = Inr r \<and> error r \<noteq> None \<Longrightarrow>
   orHelper ps s = last ps s"
proof (induction ps s rule: orHelper.induct)
  case (1 s)
  then show ?case by simp
next
  case (2 p others s)
  then show ?case by (cases "others = []") auto
qed

section \<open>The test suite on the model\<close>

text \<open>
  Assertions of \<open>mona-test.js\<close>, evaluated on the definitions above: the line and the
  column that a ParseError reports, \<open>or\<close> taking the first parser that succeeds, and
  \<open>unless\<close> (\<open>and(not(parser), ...)\<close>, here with \<open>not(value("success"))\<close> written out as the
  \<open>fail\<close> it runs) reporting the failure through a following \<open>value\<close>.
\<close>

lemma test_reports_line:
  "parse (and_parser [token, token]) [CHR 0x0A] returnError =
     Inr (ReturnedError \<lparr>position = Some \<lparr>name = None, line = 2, column = 1\<rparr>,
                         messages = [''unexpected eof''], type = Some ''eof''\<rparr>)"
  by (simp add: parse_def returnError_def bind_def token_def fail_unfold copy_def
      value_parser_Plain new_SourcePosition_def)

lemma test_reports_column:
  "parse (and_parser [token, token, token, token, fail None None])
     [CHR 0x0A, CHR ''a'', CHR 0x0A, CHR ''b'', CHR ''c'', CHR ''d'', CHR ''e'']
     returnError =
     Inr (ReturnedError \<lparr>position = Some \<lparr>name = None, line = 3, column = 2\<rparr>,
                         messages = [''parser error''], type = Some ''failure''\<rparr>)"
  by (simp add: parse_def returnError_def bind_def token_def fail_unfold copy_def
      value_parser_Plain new_SourcePosition_def)

lemma test_or_first_success:
  "parse (or_parser [fail (Some ''nope'') None, value_parser (Plain (String ''yup''))]) []
     None = Inr (ReturnedValue (String ''yup''))"
  by (simp add: parse_def or_parser_def fail_unfold value_parser_Plain)

lemma test_unless_reports_failure:
  "parse (and_parser [fail (Some ''expected parser to fail'') None,
                      value_parser (Plain (String ''fail''))]) [] returnError =
     Inr (ReturnedError \<lparr>position = Some \<lparr>name = None, line = 1, column = 1\<rparr>,
                         messages = [''expected parser to fail''],
                         type = Some ''failure''\<rparr>)"
  by (simp add: parse_def returnError_def bind_def fail_unfold value_parser_Plain
      new_SourcePosition_def)

section \<open>bind\<close>

text \<open>
  Claim C1: when \<open>parser\<close> fails, \<open>bind(parser, fun)\<close> returns the failed state untouched
  and does not call \<open>fun\<close>; the comment above \<open>bind\<close> says the same ("Fails without
  executing \<open>fun\<close> if \<open>parser\<close> fails"). The body has no test of the error: it calls
  \<open>fun(newParserState.value)(newParserState)\<close> in every case. On the input \<open>"a"\<close>,
  \<open>bind(fail("nope"), function() { return token(); })\<close> runs \<open>token\<close> on the failed state:
  the result has consumed \<open>"a"\<close>, has the value \<open>"a"\<close> and stands at column 2, where the
  state that \<open>fail("nope")\<close> returned has the whole input left.
\<close>

theorem bind_runs_continuation_after_failure:
  "fail (Some ''nope'') None (start ''a'') = Inr ((start ''a'')\<lparr>error := Some nope\<rparr>) \<and>
   bind (fail (Some ''nope'') None) (\<lambda>_. token) (start ''a'') =
     Inr \<lparr>val = String ''a'', restOfInput = [],
          pos = \<lparr>name = None, line = 1, column = 2\<rparr>, userState = Undefined,
          error = Some nope\<rparr> \<and>
   bind (fail (Some ''nope'') None) (\<lambda>_. token) (start ''a'') \<noteq>
     fail (Some ''nope'') None (start ''a'')"
  by (simp add: bind_def fail_unfold token_Cons ex_defs)

section \<open>or\<close>

text \<open>
  Claim C2: if \<open>p1\<close> fails on the state \<open>s\<close> (it returns a state with an error, whatever
  it consumed), then \<open>or(p1, p2)\<close> on \<open>s\<close> is \<open>p2\<close> run on \<open>s\<close> itself.
\<close>

theorem or_backtracks:
  "p1 s = Inr r \<Longrightarrow> error r \<noteq> None \<Longrightarrow> or_parser [p1, p2] s = p2 s"
  by (auto simp: or_parser_def split: sum.splits)

text \<open>
  Claim C2 on \<open>"ab"\<close>: the first alternative consumes \<open>"a"\<close> and then fails, with \<open>"b"\<close>
  left; the second alternative, \<open>token\<close>, still reads \<open>"a"\<close>, from column 1.
\<close>

theorem or_backtracks_witness:
  "bind token (\<lambda>_. fail None None) (start ''ab'') =
     Inr \<lparr>val = String ''a'', restOfInput = ''b'',
          pos = \<lparr>name = None, line = 1, column = 2\<rparr>, userState = Undefined,
          error = Some \<lparr>position = Some \<lparr>name = None, line = 1, column = 2\<rparr>,
                        messages = [''parser error''], type = Some ''failure''\<rparr>\<rparr> \<and>
   or_parser [bind token (\<lambda>_. fail None None), token] (start ''ab'') =
     Inr \<lparr>val = String ''a'', restOfInput = ''b'',
          pos = \<lparr>name = None, line = 1, column = 2\<rparr>, userState = Undefined,
          error = None\<rparr>"
proof -
  let ?r = "\<lparr>val = String ''a'', restOfInput = ''b'',
          pos = \<lparr>name = None, line = 1, column = 2\<rparr>, userState = Undefined,
          error = Some \<lparr>position = Some \<lparr>name = None, line = 1, column = 2\<rparr>,
                        messages = [''parser error''], type = Some ''failure''\<rparr>\<rparr>"
  have h1: "bind token (\<lambda>_. fail None None) (start ''ab'') = Inr ?r"
    by (simp add: bind_def fail_unfold token_Cons ex_defs)
  have h2: "error ?r \<noteq> None" by simp
  have "token (start ''ab'') = Inr \<lparr>val = String ''a'', restOfInput = ''b'',
          pos = \<lparr>name = None, line = 1, column = 2\<rparr>, userState = Undefined,
          error = None\<rparr>"
    by (simp add: token_Cons ex_defs)
  with or_backtracks [of "bind token (\<lambda>_. fail None None)" "start ''ab''" ?r token, OF h1 h2] h1
  show ?thesis by simp
qed

text \<open>
  Claim C7 says that when all alternatives fail, the error of \<open>or(p1, ..., pn)\<close> has the
  messages of every alternative. \<open>or(fail("a"), fail("b"))\<close> fails with the one message
  \<open>"b"\<close>: the message \<open>"a"\<close> of the first alternative is gone.
\<close>

theorem or_returns_last_error_only:
  "or_parser [fail (Some ''a'') None, fail (Some ''b'') None] (start ''x'') =
     Inr ((start ''x'')\<lparr>error := Some \<lparr>position = Some (new_SourcePosition None),
                                        messages = [''b''], type = Some ''failure''\<rparr>\<rparr>)"
  by (simp add: or_parser_def fail_unfold ex_defs)

text \<open>
  Claim C7, amended: when the alternatives \<open>p1, ..., pn\<close> (at least one) all fail on \<open>s\<close>,
  \<open>or(p1, ..., pn)\<close> on \<open>s\<close> is what the last alternative returns on \<open>s\<close>; its error is the
  last alternative's own. (The test suite lists this as "returns the last error if no
  parsers succeed".)
\<close>

theorem or_all_fail_returns_last:
  "ps \<noteq> [] \<Longrightarrow> \<forall>p \<in> set ps. \<exists>r. p s = Inr r \<and> error r \<noteq> None \<Longrightarrow>
   or_parser ps s = last ps s"
  by (simp add: or_parser_def orHelper_all_fail)

text \<open>
  Claim C7, amended, on the empty input: of \<open>fail("a")\<close>, \<open>fail("b")\<close> and \<open>token()\<close>, all
  failing, \<open>or\<close> returns the error of \<open>token()\<close>.
\<close>

theorem or_all_fail_returns_last_witness:
  "or_parser [fail (Some ''a'') None, fail (Some ''b'') None, token] (start []) =
     Inr ((start [])\<lparr>error := Some \<lparr>position = Some (new_SourcePosition None),
                                     messages = [''unexpected eof''], type = Some ''eof''\<rparr>\<rparr>)"
proof -
  let ?ps = "[fail (Some ''a'') None, fail (Some ''b'') None, token]"
  have h1: "?ps \<noteq> []" by simp
  have h2: "\<forall>p \<in> set ?ps. \<exists>r. p (start []) = Inr r \<and> error r \<noteq> None"
    by (simp add: fail_unfold token_Nil ex_defs)
  from or_all_fail_returns_last [of ?ps "start []", OF h1 h2] show ?thesis
    by (simp add: fail_unfold token_Nil ex_defs)
qed

section \<open>token\<close>

text \<open>
  Claim C3 says that \<open>token()\<close> succeeds on every state with input left, and fails with
  the messages \<open>["unexpected eof"]\<close> and the type \<open>"eof"\<close> on every state with none. On a
  state that carries the error of an earlier \<open>fail("nope")\<close>, as in
  \<open>and(fail("nope"), token())\<close>: with the input \<open>"a"\<close> left \<open>token()\<close> consumes it and
  returns a state that still has the error, so it does not succeed; with no input left
  the messages are \<open>["nope", "unexpected eof"]\<close> and the type is \<open>undefined\<close>.
\<close>

theorem token_keeps_existing_error:
  "token ((start ''a'')\<lparr>error := Some nope\<rparr>) =
     Inr \<lparr>val = String ''a'', restOfInput = [],
          pos = \<lparr>name = None, line = 1, column = 2\<rparr>, userState = Undefined,
          error = Some nope\<rparr> \<and>
   token ((start [])\<lparr>error := Some nope\<rparr>) =
     Inr ((start [])\<lparr>error := Some \<lparr>position = None,
                                     messages = [''nope'', ''unexpected eof''],
                                     type = None\<rparr>\<rparr>)"
  by (simp add: token_Cons token_Nil fail_unfold ex_defs)

text \<open>
  Claim C3, amended. If the remaining input of \<open>s\<close> is \<open>c\<close> followed by \<open>rest\<close>, \<open>token()\<close>
  returns a state with the value \<open>c\<close> and the remaining input \<open>rest\<close>; the user state, the
  source name and the error field are those of \<open>s\<close> (so it succeeds when \<open>s\<close> carries no
  error); a newline sets the column to 1 and adds 1 to the line, any other unit adds 1
  to the column and keeps the line. If the remaining input of \<open>s\<close> is empty and \<open>s\<close>
  carries no error, \<open>token()\<close> returns \<open>s\<close> with an error at the position of \<open>s\<close>, of
  messages \<open>["unexpected eof"]\<close> and type \<open>"eof"\<close>.
\<close>

theorem token_consumes_one_unit:
  "(restOfInput s = c # rest \<longrightarrow>
      (\<exists>r. token s = Inr r \<and> val r = String [c] \<and> restOfInput r = rest \<and>
           userState r = userState s \<and> error r = error s \<and>
           name (pos r) = name (pos s) \<and>
           (c = CHR 0x0A \<longrightarrow> column (pos r) = 1 \<and> line (pos r) = line (pos s) + 1) \<and>
           (c \<noteq> CHR 0x0A \<longrightarrow>
              column (pos r) = column (pos s) + 1 \<and> line (pos r) = line (pos s)))) \<and>
   (restOfInput s = [] \<and> error s = None \<longrightarrow>
      (\<exists>r e. token s = Inr r \<and> error r = Some e \<and>
             messages e = [''unexpected eof''] \<and> type e = Some ''eof'' \<and>
             position e = Some (pos s) \<and>
             val r = val s \<and> restOfInput r = [] \<and> pos r = pos s \<and>
             userState r = userState s))"
  by (auto simp: token_Cons token_Nil fail_no_error)

text \<open>
  Claim C3, amended, on three states without an error: a newline first (line 2,
  column 1), another unit first (column 2 of line 2), and no input.
\<close>

theorem token_consumes_one_unit_witness:
  "token (start [CHR 0x0A, CHR ''b'']) =
     Inr \<lparr>val = String [CHR 0x0A], restOfInput = ''b'',
          pos = \<lparr>name = None, line = 2, column = 1\<rparr>, userState = Undefined,
          error = None\<rparr> \<and>
   token ((start ''bc'')\<lparr>pos := \<lparr>name = None, line = 2, column = 1\<rparr>\<rparr>) =
     Inr \<lparr>val = String ''b'', restOfInput = ''c'',
          pos = \<lparr>name = None, line = 2, column = 2\<rparr>, userState = Undefined,
          error = None\<rparr> \<and>
   token (start []) =
     Inr ((start [])\<lparr>error := Some \<lparr>position = Some (new_SourcePosition None),
                                     messages = [''unexpected eof''], type = Some ''eof''\<rparr>\<rparr>)"
proof -
  let ?s1 = "start [CHR 0x0A, CHR ''b'']"
  let ?s2 = "(start ''bc'')\<lparr>pos := \<lparr>name = None, line = 2, column = 1\<rparr>\<rparr>"
  let ?s3 = "start []"
  have h1: "restOfInput ?s1 = CHR 0x0A # ''b''" by (simp add: ex_defs)
  have h2: "restOfInput ?s2 = CHR ''b'' # ''c''" by (simp add: ex_defs)
  have h3: "restOfInput ?s3 = [] \<and> error ?s3 = None" by (simp add: ex_defs)
  from token_consumes_one_unit [of ?s1 "CHR 0x0A" "''b''"] h1
  have a: "token ?s1 = Inr \<lparr>val = String [CHR 0x0A], restOfInput = ''b'',
          pos = \<lparr>name = None, line = 2, column = 1\<rparr>, userState = Undefined,
          error = None\<rparr>"
    by (auto simp: ex_defs)
  from token_consumes_one_unit [of ?s2 "CHR ''b''" "''c''"] h2
  have b: "token ?s2 = Inr \<lparr>val = String ''b'', restOfInput = ''c'',
          pos = \<lparr>name = None, line = 2, column = 2\<rparr>, userState = Undefined,
          error = None\<rparr>"
    by (auto simp: ex_defs)
  from token_consumes_one_unit [of ?s3] h3
  have c: "token ?s3 =
     Inr ((start [])\<lparr>error := Some \<lparr>position = Some (new_SourcePosition None),
                                     messages = [''unexpected eof''], type = Some ''eof''\<rparr>\<rparr>)"
    by (auto simp: ex_defs)
  from a b c show ?thesis by simp
qed

section \<open>value\<close>

text \<open>
  Claim C4 says that \<open>value(v)\<close> succeeds on every state and clears an error the state
  has. On a state that carries the error of \<open>fail("nope")\<close>, \<open>value("v")\<close> returns a state
  that still carries it.
\<close>

theorem value_does_not_clear_error:
  "value_parser (Plain (String ''v'')) ((start ''a'')\<lparr>error := Some nope\<rparr>) =
     Inr \<lparr>val = String ''v'', restOfInput = ''a'', pos = new_SourcePosition None,
          userState = Undefined, error = Some nope\<rparr>"
  by (simp add: value_parser_Plain start_def)

text \<open>
  Claim C4, amended: for every value \<open>v\<close> that is not a function and every state \<open>s\<close>,
  \<open>value(v)\<close> returns a state with the value \<open>v\<close> and the remaining input, the position,
  the user state and the error field of \<open>s\<close>. It succeeds when \<open>s\<close> carries no error, and
  an error on \<open>s\<close> is kept.
\<close>

theorem value_keeps_error:
  "\<exists>r. value_parser (Plain v) s = Inr r \<and> val r = v \<and> restOfInput r = restOfInput s \<and>
       pos r = pos s \<and> userState r = userState s \<and> error r = error s"
  by (simp add: value_parser_Plain)

text \<open>Claim C4, amended, on a state without an error: \<open>value(7)\<close> succeeds.\<close>

theorem value_keeps_error_witness:
  "value_parser (Plain (Number 7)) (start ''a'') =
     Inr \<lparr>val = Number 7, restOfInput = ''a'', pos = new_SourcePosition None,
          userState = Undefined, error = None\<rparr>"
  using value_keeps_error [of "Number 7" "start ''a''"] by (auto simp: start_def)

text \<open>
  Claim C9: given a function \<open>f\<close>, \<open>value(f)\<close> does not store \<open>f\<close>; the value of the state
  it returns is \<open>f\<close> applied to the old value (and if that call throws, so does the
  parser). The rest of the state is unchanged.
\<close>

theorem value_applies_function:
  "value_parser (Function f) s =
     (case f (val s) of Inl x \<Rightarrow> Inl x | Inr w \<Rightarrow> Inr (s\<lparr>val := w\<rparr>))"
  by (simp add: value_parser_def attr_Function)

text \<open>
  Claim C9 with \<open>function(old) { return [old, 1]; }\<close> on a state of value \<open>"x"\<close>: the new
  value is \<open>["x", 1]\<close>.
\<close>

theorem value_applies_function_witness:
  "value_parser (Function (\<lambda>old. Inr (Array [old, Number 1])))
       ((start ''a'')\<lparr>val := String ''x''\<rparr>) =
     Inr \<lparr>val = Array [String ''x'', Number 1], restOfInput = ''a'',
          pos = new_SourcePosition None, userState = Undefined, error = None\<rparr>"
  using value_applies_function
    [of "\<lambda>old. Inr (Array [old, Number 1])" "(start ''a'')\<lparr>val := String ''x''\<rparr>"]
  by (simp add: start_def)

section \<open>eof\<close>

text \<open>
  Claim C5: on a state with input left, \<open>eof()\<close> returns a state that fails with the
  messages \<open>["expected an eof"]\<close> and the type \<open>"expectation"\<close>. The source returns
  \<open>fail("expected an eof", "expectation")\<close> without applying it to the state (\<open>token\<close>
  applies its \<open>fail(...)\<close> to \<open>parserState\<close>): with \<open>"a"\<close> left, what \<open>eof()\<close> returns is
  that parser, and no parser state.
\<close>

theorem eof_returns_parser_on_remaining_input:
  "eof (start ''a'') =
     Inr (ReturnedParser (fail (Some ''expected an eof'') (Some ''expectation''))) \<and>
   (\<forall>st. eof (start ''a'') \<noteq> Inr (ReturnedState st))"
  by (simp add: eof_def start_def)

section \<open>mergeErrors\<close>

text \<open>
  Claim C6 says that the merge of two errors with messages keeps the type and the
  position of the new error, and that an existing error without messages gives the new
  error. Merging the error of \<open>fail("nope")\<close> with an \<open>"eof"\<close> error at column 2 gives an
  error whose position and type are \<open>undefined\<close>; two errors without messages merge
  to a third one, of \<open>undefined\<close> position and type; and an existing error without
  messages merged with an absent one throws.
\<close>

theorem mergeErrors_drops_type_and_position:
  "mergeErrors (Some nope)
     (Some \<lparr>position = Some \<lparr>name = None, line = 1, column = 2\<rparr>,
            messages = [''unexpected eof''], type = Some ''eof''\<rparr>) =
     Inr (Some \<lparr>position = None, messages = [''nope'', ''unexpected eof''], type = None\<rparr>) \<and>
   mergeErrors (Some \<lparr>position = Some (new_SourcePosition None), messages = [],
                      type = Some ''failure''\<rparr>)
     (Some \<lparr>position = Some \<lparr>name = None, line = 1, column = 2\<rparr>,
            messages = [], type = Some ''eof''\<rparr>) =
     Inr (Some \<lparr>position = None, messages = [], type = None\<rparr>) \<and>
   mergeErrors (Some \<lparr>position = Some (new_SourcePosition None), messages = [],
                      type = Some ''failure''\<rparr>) None = Inl TypeError"
  by (simp add: nope_def)

text \<open>
  Claim C6, amended. If the existing error is absent, the result is the new error. If
  the existing error has no messages and the new one has some, the result is the new
  error. If the existing error has messages and the new error is absent or has none, the
  result is the existing error. If both have messages, the result is an error whose
  messages are those of the existing error followed by those of the new one.
\<close>

theorem mergeErrors_cases:
  "mergeErrors None new = Inr new \<and>
   (messages e = [] \<and> messages n \<noteq> [] \<longrightarrow> mergeErrors (Some e) (Some n) = Inr (Some n)) \<and>
   (messages e \<noteq> [] \<longrightarrow> mergeErrors (Some e) None = Inr (Some e)) \<and>
   (messages e \<noteq> [] \<and> messages n = [] \<longrightarrow> mergeErrors (Some e) (Some n) = Inr (Some e)) \<and>
   (messages e \<noteq> [] \<and> messages n \<noteq> [] \<longrightarrow>
      (\<exists>m. mergeErrors (Some e) (Some n) = Inr (Some m) \<and>
           messages m = messages e @ messages n))"
  by simp

text \<open>
  Claim C6, amended, on the error of \<open>fail("nope")\<close> and its copy without messages, one
  merge for each case.
\<close>

theorem mergeErrors_cases_witness:
  "mergeErrors None (Some nope) = Inr (Some nope) \<and>
   mergeErrors (Some (nope\<lparr>messages := []\<rparr>)) (Some nope) = Inr (Some nope) \<and>
   mergeErrors (Some nope) None = Inr (Some nope) \<and>
   mergeErrors (Some nope) (Some (nope\<lparr>messages := []\<rparr>)) = Inr (Some nope) \<and>
   map_sum id (map_option messages) (mergeErrors (Some nope) (Some nope)) =
     Inr (Some [''nope'', ''nope''])"
proof -
  have h1: "messages (nope\<lparr>messages := []\<rparr>) = [] \<and> messages nope \<noteq> []"
    by (simp add: nope_def)
  from mergeErrors_cases [of "Some nope" "nope\<lparr>messages := []\<rparr>" nope] h1
  have a: "mergeErrors None (Some nope) = Inr (Some nope) \<and>
           mergeErrors (Some (nope\<lparr>messages := []\<rparr>)) (Some nope) = Inr (Some nope)"
    by blast
  from mergeErrors_cases [of None nope "nope\<lparr>messages := []\<rparr>"] h1
  have b: "mergeErrors (Some nope) None = Inr (Some nope) \<and>
           mergeErrors (Some nope) (Some (nope\<lparr>messages := []\<rparr>)) = Inr (Some nope)"
    by blast
  from mergeErrors_cases [of None nope nope] h1
  have c: "map_sum id (map_option messages) (mergeErrors (Some nope) (Some nope)) =
     Inr (Some [''nope'', ''nope''])"
    by (auto simp: nope_def)
  from a b c show ?thesis by blast
qed

section \<open>parse\<close>

text \<open>
  Claim C8: a failing parse raises the ParseError also when an options object is given
  that has no \<open>throwOnError\<close> field, since the option defaults to true (the source
  documents \<open>[opts.throwOnError=true]\<close>). The default \<open>{throwOnError: true}\<close> replaces only
  a missing options object: with the options \<open>{fileName: "f.txt"}\<close>,
  \<open>parse(fail("nop"), "", opts)\<close> returns the error; with no options it throws it.
\<close>

theorem parse_returns_error_when_throwOnError_omitted:
  "parse (fail (Some ''nop'') None) []
     (Some \<lparr>throwOnError = Undefined, fileName = Some ''f.txt'',
            opts_userState = Undefined\<rparr>) =
     Inr (ReturnedError \<lparr>position = Some \<lparr>name = Some ''f.txt'', line = 1, column = 1\<rparr>,
                         messages = [''nop''], type = Some ''failure''\<rparr>) \<and>
   parse (fail (Some ''nop'') None) [] None =
     Inl (Thrown \<lparr>position = Some \<lparr>name = None, line = 1, column = 1\<rparr>,
                  messages = [''nop''], type = Some ''failure''\<rparr>)"
  by (simp add: parse_def fail_unfold new_SourcePosition_def)

section \<open>The primitives on a state that carries an error\<close>

text \<open>
  Claim C10: on a state that carries an error, \<open>token()\<close>, \<open>value(v)\<close> and
  \<open>fail(msg, type)\<close> return a state that still carries an error, and no primitive resets
  the error field to absent. \<open>eof()\<close> does, with input left: on the state with the input
  \<open>"a"\<close> that carries the error of \<open>fail("nope")\<close> (as in \<open>and(fail("nope"), eof())\<close>), it
  returns the parser \<open>fail("expected an eof", "expectation")\<close>, which it did not apply to
  the state. What it returns is no parser state and has no error field: the error is
  gone. This is the missing application that claim C5 meets.
\<close>

theorem eof_drops_existing_error:
  "error ((start ''a'')\<lparr>error := Some nope\<rparr>) = Some nope \<and>
   eof ((start ''a'')\<lparr>error := Some nope\<rparr>) =
     Inr (ReturnedParser (fail (Some ''expected an eof'') (Some ''expectation''))) \<and>
   (\<forall>st. eof ((start ''a'')\<lparr>error := Some nope\<rparr>) \<noteq> Inr (ReturnedState st))"
  by (simp add: eof_def start_def)

text \<open>
  The other paths of the primitives do keep an error. On a state \<open>s\<close> that carries an
  error \<open>e\<close>: \<open>token()\<close> with input left consumes a unit and keeps \<open>e\<close>; \<open>value\<close> keeps \<open>e\<close>
  (for a plain value, and for a function that returns); \<open>fail(msg, type)\<close> returns a
  state whose error is \<open>mergeErrors\<close> of \<open>e\<close> and the new error; \<open>token()\<close> with no input
  left is that \<open>fail\<close>; and \<open>eof()\<close> with no input left keeps \<open>e\<close>.
\<close>

theorem primitives_keep_error:
  assumes "error s = Some e"
  shows "(restOfInput s = c # rest \<longrightarrow>
            (\<exists>r. token s = Inr r \<and> error r = Some e \<and> restOfInput r = rest)) \<and>
         (restOfInput s = [] \<longrightarrow> (\<exists>r m. token s = Inr r \<and> error r = Some m)) \<and>
         (\<exists>r. value_parser (Plain v) s = Inr r \<and> error r = Some e) \<and>
         (\<forall>r. value_parser a s = Inr r \<longrightarrow> error r = Some e) \<and>
         (\<exists>r m. fail msg ty s = Inr r \<and> error r = Some m \<and>
                mergeErrors (Some e)
                  (Some \<lparr>position = Some (pos s),
                         messages = [or_default msg ''parser error''],
                         type = Some (or_default ty ''failure'')\<rparr>) = Inr (Some m)) \<and>
         (restOfInput s = [] \<longrightarrow>
            (\<exists>r. eof s = Inr (ReturnedState r) \<and> error r = Some e))"
proof -
  have fail_some:
    "\<exists>r m. fail msg' ty' s = Inr r \<and> error r = Some m \<and>
           mergeErrors (Some e)
             (Some \<lparr>position = Some (pos s),
                    messages = [or_default msg' ''parser error''],
                    type = Some (or_default ty' ''failure'')\<rparr>) = Inr (Some m)"
    for msg' ty'
    using assms by (simp add: fail_unfold)
  have tok: "restOfInput s = c # rest \<longrightarrow>
            (\<exists>r. token s = Inr r \<and> error r = Some e \<and> restOfInput r = rest)"
    using assms by (simp add: token_Cons)
  have tok0: "restOfInput s = [] \<longrightarrow> (\<exists>r m. token s = Inr r \<and> error r = Some m)"
    using fail_some [of "Some ''unexpected eof''" "Some ''eof''"] by (auto simp: token_Nil)
  have v1: "\<exists>r. value_parser (Plain v) s = Inr r \<and> error r = Some e"
    using assms by (simp add: value_parser_Plain)
  have v2: "\<forall>r. value_parser a s = Inr r \<longrightarrow> error r = Some e"
    using assms
    by (cases a) (auto simp: value_parser_def attr_Plain attr_Function split: sum.splits)
  have e1: "restOfInput s = [] \<longrightarrow>
            (\<exists>r. eof s = Inr (ReturnedState r) \<and> error r = Some e)"
    using assms by (simp add: eof_def attr_Plain)
  show ?thesis using tok tok0 v1 v2 fail_some e1 by blast
qed

text \<open>
  The same on the states with the input \<open>"ab"\<close> and with no input that carry the error of
  \<open>fail("nope")\<close>.
\<close>

theorem primitives_keep_error_witness:
  "token ((start ''ab'')\<lparr>error := Some nope\<rparr>) =
     Inr \<lparr>val = String ''a'', restOfInput = ''b'',
          pos = \<lparr>name = None, line = 1, column = 2\<rparr>, userState = Undefined,
          error = Some nope\<rparr> \<and>
   value_parser (Plain (Boolean True)) ((start ''ab'')\<lparr>error := Some nope\<rparr>) =
     Inr \<lparr>val = Boolean True, restOfInput = ''ab'', pos = new_SourcePosition None,
          userState = Undefined, error = Some nope\<rparr> \<and>
   map_sum id (map_option messages \<circ> error)
       (fail (Some ''again'') None ((start ''ab'')\<lparr>error := Some nope\<rparr>)) =
     Inr (Some [''nope'', ''again'']) \<and>
   map_sum id (map_option messages \<circ> error) (token ((start [])\<lparr>error := Some nope\<rparr>)) =
     Inr (Some [''nope'', ''unexpected eof'']) \<and>
   eof ((start [])\<lparr>error := Some nope\<rparr>) =
     Inr (ReturnedState ((start [])\<lparr>val := Boolean True, error := Some nope\<rparr>))"
proof -
  let ?s = "(start ''ab'')\<lparr>error := Some nope\<rparr>"
  let ?t = "(start [])\<lparr>error := Some nope\<rparr>"
  have hs: "error ?s = Some nope" and ht: "error ?t = Some nope" by simp_all
  have ins: "restOfInput ?s = CHR ''a'' # ''b''" and int: "restOfInput ?t = []"
    by (simp_all add: start_def)
  note S = primitives_keep_error [OF hs, of "CHR ''a''" "''b''" "Boolean True"
      "Plain (Boolean True)" "Some ''again''" None]
  note T = primitives_keep_error [OF ht, of "CHR ''a''" "''b''" "Boolean True"
      "Plain (Boolean True)" "Some ''again''" None]
  from S ins have a: "token ?s =
     Inr \<lparr>val = String ''a'', restOfInput = ''b'',
          pos = \<lparr>name = None, line = 1, column = 2\<rparr>, userState = Undefined,
          error = Some nope\<rparr>"
    by (auto simp: token_Cons ex_defs)
  from S have b: "value_parser (Plain (Boolean True)) ?s =
     Inr \<lparr>val = Boolean True, restOfInput = ''ab'', pos = new_SourcePosition None,
          userState = Undefined, error = Some nope\<rparr>"
    by (auto simp: value_parser_Plain ex_defs)
  from S have c: "map_sum id (map_option messages \<circ> error) (fail (Some ''again'') None ?s) =
     Inr (Some [''nope'', ''again''])"
    by (auto simp: nope_def)
  from T int have d: "map_sum id (map_option messages \<circ> error) (token ?t) =
     Inr (Some [''nope'', ''unexpected eof''])"
    by (auto simp: token_Nil fail_unfold ex_defs)
  from T int have e: "eof ?t =
     Inr (ReturnedState ((start [])\<lparr>val := Boolean True, error := Some nope\<rparr>))"
    by (auto simp: eof_def attr_Plain ex_defs)
  from a b c d e show ?thesis by blast
qed

section \<open>Further properties\<close>

text \<open>
  \<open>fail(msg, type)\<close> fails on every state: it returns a state with an error that has at
  least one message, and with the value, the remaining input, the position and the user
  state of the state it was given.
\<close>

theorem fail_always_fails:
  "\<exists>r e. fail msg ty s = Inr r \<and> error r = Some e \<and> messages e \<noteq> [] \<and>
          val r = val s \<and> restOfInput r = restOfInput s \<and> pos r = pos s \<and>
          userState r = userState s"
proof (cases "error s")
  case None
  then show ?thesis by (cases msg) (simp_all add: fail_unfold)
next
  case (Some old)
  then show ?thesis by (cases msg) (simp_all add: fail_unfold)
qed

text \<open>
  \<open>parse\<close> without options, on a parser that fails on the input: the error is thrown.
\<close>

theorem parse_failure_without_options:
  "parser (start str) = Inr r \<Longrightarrow> error r = Some e \<Longrightarrow>
   parse parser str None = Inl (Thrown e)"
  by (simp add: parse_def start_def)

text \<open>\<open>parse(token(), "")\<close> throws the \<open>"eof"\<close> error.\<close>

theorem parse_failure_without_options_witness:
  "parse token [] None =
     Inl (Thrown \<lparr>position = Some (new_SourcePosition None),
                  messages = [''unexpected eof''], type = Some ''eof''\<rparr>)"
proof -
  let ?e = "\<lparr>position = Some (new_SourcePosition None),
                  messages = [''unexpected eof''], type = Some ''eof''\<rparr>"
  let ?r = "(start [])\<lparr>error := Some ?e\<rparr>"
  have h1: "token (start []) = Inr ?r"
    by (simp add: token_Nil fail_unfold start_def)
  have h2: "error ?r = Some ?e" by simp
  from parse_failure_without_options [of token "[]" ?r ?e, OF h1 h2]
  show ?thesis .
qed

text \<open>
  \<open>parse\<close> with an options object, on a parser that fails on the input: the error is
  thrown when \<open>opts.throwOnError\<close> is truthy and returned when it is falsy.
\<close>

theorem parse_failure_with_options:
  "parser \<lparr>val = Undefined, restOfInput = str, pos = new_SourcePosition (fileName given),
           userState = opts_userState given, error = None\<rparr> = Inr r \<Longrightarrow>
   error r = Some e \<Longrightarrow>
   parse parser str (Some given) =
     (if truthy (throwOnError given) then Inl (Thrown e) else Inr (ReturnedError e))"
  by (simp add: parse_def)

text \<open>
  \<open>parse(token(), "", opts)\<close> throws with \<open>throwOnError: "yes"\<close> and returns the error with
  \<open>throwOnError: 0\<close>.
\<close>

theorem parse_failure_with_options_witness:
  "parse token [] (Some \<lparr>throwOnError = String ''yes'', fileName = None,
                          opts_userState = Undefined\<rparr>) =
     Inl (Thrown \<lparr>position = Some (new_SourcePosition None),
                  messages = [''unexpected eof''], type = Some ''eof''\<rparr>) \<and>
   parse token [] (Some \<lparr>throwOnError = Number 0, fileName = None,
                          opts_userState = Undefined\<rparr>) =
     Inr (ReturnedError \<lparr>position = Some (new_SourcePosition None),
                         messages = [''unexpected eof''], type = Some ''eof''\<rparr>)"
proof -
  let ?e = "\<lparr>position = Some (new_SourcePosition None),
                  messages = [''unexpected eof''], type = Some ''eof''\<rparr>"
  let ?r = "(start [])\<lparr>error := Some ?e\<rparr>"
  have h1: "token \<lparr>val = Undefined, restOfInput = [],
              pos = new_SourcePosition (fileName \<lparr>throwOnError = t, fileName = None,
                          opts_userState = Undefined\<rparr>),
              userState = opts_userState \<lparr>throwOnError = t, fileName = None,
                          opts_userState = Undefined\<rparr>, error = None\<rparr> = Inr ?r" for t
    by (simp add: token_Nil fail_unfold start_def)
  have h2: "error ?r = Some ?e" by simp
  from parse_failure_with_options [of token "[]" _ ?r ?e, OF h1 h2, of "String ''yes''"]
       parse_failure_with_options [of token "[]" _ ?r ?e, OF h1 h2, of "Number 0"]
  show ?thesis by simp
qed

end
